theory Spec2Isabelle
  imports Main
begin

section \<open>Python values, objects and the process state\<close>

text \<open>
  The values that reach the log record in \<^verbatim>\<open>ddtrace/contrib/logging/patch.py\<close>:
  \<^verbatim>\<open>None\<close>, booleans, unbounded integers and strings. \<open>truthy\<close> is Python's truth
  test, the one \<^verbatim>\<open>if not value\<close> and \<^verbatim>\<open>span.trace_id and span.span_id\<close> apply.
\<close>

datatype pyval = PyNone | PyBool bool | PyInt int | PyStr string

fun truthy :: "pyval \<Rightarrow> bool" where
  "truthy PyNone = False"
| "truthy (PyBool b) = b"
| "truthy (PyInt i) = (i \<noteq> 0)"
| "truthy (PyStr s) = (s \<noteq> [])"

text \<open>A raised exception is a value; the string is the exception's name.\<close>

datatype exn = PyException string

text \<open>
  Objects live in a store: an address names an object, and an object is its attribute
  dictionary. \<^verbatim>\<open>setattr(obj, key, value)\<close> updates the store in place, so two references
  to one address see the same attributes. The rest of the process state (the tracer's
  execution context, the logging framework's own data) is the field \<open>ctx\<close>, which the
  code of this integration never writes.
\<close>

type_synonym addr = nat
type_synonym obj = "string \<rightharpoonup> pyval"

record 'c world =
  heap :: "addr \<Rightarrow> obj"
  ctx :: 'c

definition setattr :: "'c world \<Rightarrow> addr \<Rightarrow> string \<Rightarrow> pyval \<Rightarrow> 'c world" where
  "setattr w a key v = w\<lparr>heap := (heap w)(a := (heap w a)(key \<mapsto> v))\<rparr>"

text \<open>A call either raises or returns a value, and leaves a new process state.\<close>

type_synonym ('c, 'r) call_result = "(exn + 'r) \<times> 'c world"

section \<open>The collaborators: span, tracer, configuration\<close>

text \<open>
  A span as the hook reads it: \<^verbatim>\<open>span.trace_id\<close>, \<^verbatim>\<open>span.span_id\<close> and the tag
  dictionary \<^verbatim>\<open>span.meta\<close> (string keys, string values).
\<close>

record span =
  trace_id :: int
  span_id :: int
  meta :: "string \<rightharpoonup> string"

text \<open>
  Modelled from the spec: \<^verbatim>\<open>Span.get_tag\<close> is defined in \<^verbatim>\<open>ddtrace/span.py\<close>, which is not
  among the sources. The interface section gives \<^verbatim>\<open>Span.getTag(key) -> string|absent\<close>
  over the span's tag mapping: the value stored under the key, or nothing.
\<close>

definition get_tag :: "span \<Rightarrow> string \<Rightarrow> string option" where
  "get_tag sp key = meta sp key"

text \<open>
  Modelled from the spec: \<^verbatim>\<open>Span.set_tag\<close> is defined in \<^verbatim>\<open>ddtrace/span.py\<close>, which is not
  among the sources. The spec's contract on tag keys has the service-version key
  recognised as a version tag, of lower precedence than the primary version key, and its
  scenario D has the version \<^verbatim>\<open>"1.2.3"\<close> on the record under a span tagged with the
  service-version tag alone; \<^verbatim>\<open>test_log_span_service_version\<close> and
  \<^verbatim>\<open>test_log_span_global_and_service_version\<close> run that scenario through
  \<^verbatim>\<open>span.set_tag(SERVICE_VERSION_KEY, "1.2.3")\<close>. The hook reads the primary key alone
  (\<^verbatim>\<open>VERSION_KEY in span.meta\<close>), so attaching the service-version tag records the value
  under the primary key as well as under its own; every other tag is stored under its own
  key. The two keys are parameters, as in the hook. \<open>set_tag_calls\<close> attaches a list of
  tags in order, as successive \<^verbatim>\<open>set_tag\<close> calls do.
\<close>

definition set_tag :: "string \<Rightarrow> string \<Rightarrow> span \<Rightarrow> string \<Rightarrow> string \<Rightarrow> span" where
  "set_tag VERSION_KEY SERVICE_VERSION_KEY sp key value =
     (if key = SERVICE_VERSION_KEY
      then sp\<lparr>meta := (meta sp)(VERSION_KEY \<mapsto> value, SERVICE_VERSION_KEY \<mapsto> value)\<rparr>
      else sp\<lparr>meta := (meta sp)(key \<mapsto> value)\<rparr>)"

fun set_tag_calls :: "string \<Rightarrow> string \<Rightarrow> span \<Rightarrow> (string \<times> string) list \<Rightarrow> span" where
  "set_tag_calls VERSION_KEY SERVICE_VERSION_KEY sp [] = sp"
| "set_tag_calls VERSION_KEY SERVICE_VERSION_KEY sp ((key, value) # tags) =
     set_tag_calls VERSION_KEY SERVICE_VERSION_KEY
       (set_tag VERSION_KEY SERVICE_VERSION_KEY sp key value) tags"

text \<open>
  A tracer answers \<^verbatim>\<open>current_span()\<close> from the process state: it returns a span,
  returns \<^verbatim>\<open>None\<close>, or raises.
\<close>

record 'c tracer =
  current_span :: "'c world \<Rightarrow> exn + span option"

text \<open>
  What the hook reads of the \<^verbatim>\<open>ddtrace\<close> module: \<^verbatim>\<open>ddtrace.config.env\<close>,
  \<^verbatim>\<open>ddtrace.config.version\<close> (a string or \<^verbatim>\<open>None\<close>), the integration's tracer override
  \<^verbatim>\<open>ddtrace.config.logging.tracer\<close> (registered as \<^verbatim>\<open>None\<close> at import) and the default
  \<^verbatim>\<open>ddtrace.tracer\<close>.
\<close>

record 'c ddtrace =
  config_env :: "string option"
  config_version :: "string option"
  config_logging_tracer :: "'c tracer option"
  tracer :: "'c tracer"

text \<open>A Python variable that holds a string or \<^verbatim>\<open>None\<close>, as a value.\<close>

fun py_str :: "string option \<Rightarrow> pyval" where
  "py_str None = PyNone"
| "py_str (Some s) = PyStr s"

section \<open>The record attributes\<close>

definition RECORD_ATTR_ENV :: string where
  "RECORD_ATTR_ENV = ''dd.env''"

definition RECORD_ATTR_VERSION :: string where
  "RECORD_ATTR_VERSION = ''dd.version''"

definition RECORD_ATTR_TRACE_ID :: string where
  "RECORD_ATTR_TRACE_ID = ''dd.trace_id''"

definition RECORD_ATTR_SPAN_ID :: string where
  "RECORD_ATTR_SPAN_ID = ''dd.span_id''"

definition RECORD_ATTR_VALUE_ZERO :: pyval where
  "RECORD_ATTR_VALUE_ZERO = PyInt 0"

definition RECORD_ATTR_VALUE_EMPTY :: pyval where
  "RECORD_ATTR_VALUE_EMPTY = PyStr []"

lemmas record_attr_defs =
  RECORD_ATTR_ENV_def RECORD_ATTR_VERSION_def RECORD_ATTR_TRACE_ID_def
  RECORD_ATTR_SPAN_ID_def RECORD_ATTR_VALUE_ZERO_def RECORD_ATTR_VALUE_EMPTY_def

section \<open>The hook\<close>

text \<open>
  \<^verbatim>\<open>_inject_or_default(record, key, value, default=RECORD_ATTR_VALUE_EMPTY)\<close>. (A name
  cannot begin with an underscore here, so the leading underscore of the source's private
  names is dropped, and the parameter \<^verbatim>\<open>default\<close> is \<open>dflt\<close>.)
\<close>

definition inject_or_default ::
  "'c world \<Rightarrow> addr \<Rightarrow> string \<Rightarrow> pyval \<Rightarrow> pyval \<Rightarrow> 'c world" where
  "inject_or_default w record key value dflt =
     (let value = (if \<not> truthy value then dflt else value)
      in setattr w record key value)"

text \<open>
  \<^verbatim>\<open>_w_makeRecord(func, instance, args, kwargs)\<close>. The tag keys \<^verbatim>\<open>VERSION_KEY\<close> and
  \<^verbatim>\<open>ENV_KEY\<close> are imported from \<^verbatim>\<open>ddtrace/constants.py\<close>, which is not among the
  sources: they are parameters. \<open>func\<close> is the wrapped original construction; it may
  raise, and so may the tracer's lookup: the hook has no handler, so either exception
  leaves the hook. A span object is always true in \<^verbatim>\<open>if span and ...\<close>, so the test is
  that the lookup did not return \<^verbatim>\<open>None\<close>.
\<close>

definition w_makeRecord ::
  "string \<Rightarrow> string \<Rightarrow> 'c ddtrace \<Rightarrow> ('a \<Rightarrow> 'k \<Rightarrow> 'c world \<Rightarrow> ('c, addr) call_result)
     \<Rightarrow> 'i \<Rightarrow> 'a \<Rightarrow> 'k \<Rightarrow> 'c world \<Rightarrow> ('c, addr) call_result" where
  "w_makeRecord VERSION_KEY ENV_KEY dd func instance args kwargs w0 =
     (case func args kwargs w0 of
        (Inl e, w) \<Rightarrow> (Inl e, w)
      | (Inr record, w) \<Rightarrow>
          (let tracer = (case config_logging_tracer dd of Some t \<Rightarrow> t | None \<Rightarrow> tracer dd)
           in case current_span tracer w of
                Inl e \<Rightarrow> (Inl e, w)
              | Inr span \<Rightarrow>
                  (let version = config_version dd;
                       version = (case span of
                                    Some sp \<Rightarrow> if meta sp VERSION_KEY \<noteq> None
                                               then get_tag sp VERSION_KEY else version
                                  | None \<Rightarrow> version);
                       w = inject_or_default w record RECORD_ATTR_VERSION (py_str version)
                             RECORD_ATTR_VALUE_EMPTY;
                       env = config_env dd;
                       env = (case span of
                                Some sp \<Rightarrow> if meta sp ENV_KEY \<noteq> None
                                           then get_tag sp ENV_KEY else env
                              | None \<Rightarrow> env);
                       w = inject_or_default w record RECORD_ATTR_ENV (py_str env)
                             RECORD_ATTR_VALUE_EMPTY;
                       w = (case span of
                              Some sp \<Rightarrow>
                                if truthy (PyInt (trace_id sp)) \<and> truthy (PyInt (span_id sp))
                                then setattr
                                       (setattr w record RECORD_ATTR_TRACE_ID (PyInt (trace_id sp)))
                                       record RECORD_ATTR_SPAN_ID (PyInt (span_id sp))
                                else setattr
                                       (setattr w record RECORD_ATTR_TRACE_ID RECORD_ATTR_VALUE_ZERO)
                                       record RECORD_ATTR_SPAN_ID RECORD_ATTR_VALUE_ZERO
                            | None \<Rightarrow>
                                setattr
                                  (setattr w record RECORD_ATTR_TRACE_ID RECORD_ATTR_VALUE_ZERO)
                                  record RECORD_ATTR_SPAN_ID RECORD_ATTR_VALUE_ZERO)
                   in (Inr record, w))))"

section \<open>Installing and removing the hook\<close>

text \<open>
  What \<^verbatim>\<open>logging.Logger.makeRecord\<close> holds: the framework's own method, or a function
  wrapper around what was there before, whose wrapper function is the hook.
\<close>

datatype callable = Original | FunctionWrapper callable

text \<open>
  The \<^verbatim>\<open>logging\<close> module as this integration uses it: the attribute
  \<^verbatim>\<open>_datadog_patch\<close>, absent until \<open>patch\<close> first sets it, and \<^verbatim>\<open>Logger.makeRecord\<close>.
\<close>

record logging =
  datadog_patch :: "bool option"
  Logger_makeRecord :: callable

text \<open>\<^verbatim>\<open>getattr(logging, "_datadog_patch", False)\<close>.\<close>

definition getattr_datadog_patch :: "logging \<Rightarrow> bool" where
  "getattr_datadog_patch m = (case datadog_patch m of None \<Rightarrow> False | Some b \<Rightarrow> b)"

text \<open>
  Modelled from the spec: \<^verbatim>\<open>wrap_function_wrapper\<close> (\<^verbatim>\<open>ddtrace/vendor/wrapt\<close>, imported
  as \<^verbatim>\<open>_w\<close>) and \<^verbatim>\<open>unwrap\<close> (\<^verbatim>\<open>ddtrace/utils/wrappers.py\<close>, imported as \<^verbatim>\<open>_u\<close>) are not
  among the sources. The spec's Injection Controller "installs a wrapper around the
  logging framework's record-construction entry point" and on disable "removes the
  wrapper, restoring the original record-construction entry point": wrapping puts one
  function wrapper around what the attribute holds, unwrapping takes the outermost one
  off and leaves a plain function as it is.
\<close>

definition wrap_function_wrapper :: "callable \<Rightarrow> callable" where
  "wrap_function_wrapper f = FunctionWrapper f"

fun unwrap :: "callable \<Rightarrow> callable" where
  "unwrap (FunctionWrapper f) = f"
| "unwrap Original = Original"

definition patch :: "logging \<Rightarrow> logging" where
  "patch m =
     (if getattr_datadog_patch m then m
      else m\<lparr>datadog_patch := Some True,
             Logger_makeRecord := wrap_function_wrapper (Logger_makeRecord m)\<rparr>)"

definition unpatch :: "logging \<Rightarrow> logging" where
  "unpatch m =
     (if getattr_datadog_patch m
      then m\<lparr>datadog_patch := Some False,
             Logger_makeRecord := unwrap (Logger_makeRecord m)\<rparr>
      else m)"

text \<open>
  Modelled from the spec: calling what \<^verbatim>\<open>Logger.makeRecord\<close> holds. The spec's wrapper is
  such that "every call first executes the wrapped original construction, then invokes
  the Correlation Resolver with the just-constructed record as target": a function
  wrapper calls the hook with the wrapped callable, bound to the logger instance, as
  \<open>func\<close>; the framework's own method \<open>orig\<close> is called as it is.
\<close>

primrec call_makeRecord ::
  "string \<Rightarrow> string \<Rightarrow> 'c ddtrace \<Rightarrow> ('i \<Rightarrow> 'a \<Rightarrow> 'k \<Rightarrow> 'c world \<Rightarrow> ('c, addr) call_result)
     \<Rightarrow> callable \<Rightarrow> 'i \<Rightarrow> 'a \<Rightarrow> 'k \<Rightarrow> 'c world \<Rightarrow> ('c, addr) call_result" where
  "call_makeRecord VERSION_KEY ENV_KEY dd orig Original = orig"
| "call_makeRecord VERSION_KEY ENV_KEY dd orig (FunctionWrapper f) =
     (\<lambda>instance. w_makeRecord VERSION_KEY ENV_KEY dd
        (call_makeRecord VERSION_KEY ENV_KEY dd orig f instance) instance)"

text \<open>
  The module as imported, before any call of \<open>patch\<close>, and the states that sequences of
  \<open>patch\<close> and \<open>unpatch\<close> calls lead to.
\<close>

definition logging_imported :: logging where
  "logging_imported = \<lparr>datadog_patch = None, Logger_makeRecord = Original\<rparr>"

datatype lifecycle_call = Patch | Unpatch

fun run_calls :: "lifecycle_call list \<Rightarrow> logging \<Rightarrow> logging" where
  "run_calls [] m = m"
| "run_calls (Patch # cs) m = run_calls cs (patch m)"
| "run_calls (Unpatch # cs) m = run_calls cs (unpatch m)"

text \<open>The number of function wrappers around the framework's method.\<close>

fun wrapper_depth :: "callable \<Rightarrow> nat" where
  "wrapper_depth Original = 0"
| "wrapper_depth (FunctionWrapper f) = Suc (wrapper_depth f)"

text \<open>
  The tracer the hook asks, \<^verbatim>\<open>ddtrace.config.logging.tracer or ddtrace.tracer\<close>, under a
  name for use in statements.
\<close>

abbreviation hook_tracer :: "'c ddtrace \<Rightarrow> 'c tracer" where
  "hook_tracer dd \<equiv> (case config_logging_tracer dd of Some t \<Rightarrow> t | None \<Rightarrow> tracer dd)"

text \<open>The four attribute names the hook writes.\<close>

definition correlation_attrs :: "string set" where
  "correlation_attrs =
     {RECORD_ATTR_ENV, RECORD_ATTR_VERSION, RECORD_ATTR_TRACE_ID, RECORD_ATTR_SPAN_ID}"

section \<open>The precedence chain as the specification words it\<close>

text \<open>
  The specification resolves environment and version by one chain: "the span's tag
  value if a current span exists and its tag mapping contains the corresponding key,
  else the global configuration value, else the empty string". \<open>span_tag\<close> is the first
  step's value when there is one, \<open>fallback_chain\<close> the chain.
\<close>

definition span_tag :: "span option \<Rightarrow> string \<Rightarrow> string option" where
  "span_tag spo key = (case spo of None \<Rightarrow> None | Some sp \<Rightarrow> meta sp key)"

definition fallback_chain :: "string option \<Rightarrow> string option \<Rightarrow> string" where
  "fallback_chain tag_value config_value =
     (case tag_value of
        Some v \<Rightarrow> v
      | None \<Rightarrow> (case config_value of Some c \<Rightarrow> c | None \<Rightarrow> []))"


section \<open>Concrete scenarios\<close>

text \<open>
  The fixtures of \<^verbatim>\<open>tests/contrib/logging/test_logging.py\<close>, for evaluating the model on
  concrete inputs. \<open>test_makeRecord\<close> stands for the framework's \<^verbatim>\<open>Logger.makeRecord\<close>:
  it makes the record at address 0 with its message, and counts its own calls in \<open>ctx\<close>.
  \<open>test_tracer\<close> answers with a fixed current span, \<open>raising_tracer\<close> raises, and
  \<open>test_ddtrace\<close> is the configuration the tests set up with \<^verbatim>\<open>override_global_config\<close>
  and \<^verbatim>\<open>override_config("logging", dict(tracer=...))\<close>.
\<close>

definition world0 :: "nat world" where
  "world0 = \<lparr>heap = \<lambda>a. Map.empty, ctx = 0\<rparr>"

definition test_makeRecord :: "unit \<Rightarrow> string \<Rightarrow> unit \<Rightarrow> nat world \<Rightarrow> (nat, addr) call_result" where
  "test_makeRecord instance msg kwargs w =
     (Inr 0, (setattr w 0 ''msg'' (PyStr msg))\<lparr>ctx := Suc (ctx w)\<rparr>)"

definition test_span :: "int \<Rightarrow> int \<Rightarrow> (string \<times> string) list \<Rightarrow> span" where
  "test_span t s tags = \<lparr>trace_id = t, span_id = s, meta = map_of tags\<rparr>"

definition test_tracer :: "span option \<Rightarrow> nat tracer" where
  "test_tracer spo = \<lparr>current_span = \<lambda>w. Inr spo\<rparr>"

definition raising_tracer :: "nat tracer" where
  "raising_tracer = \<lparr>current_span = \<lambda>w. Inl (PyException ''RuntimeError'')\<rparr>"

definition test_ddtrace :: "string option \<Rightarrow> string option \<Rightarrow> nat tracer \<Rightarrow> nat ddtrace" where
  "test_ddtrace env version tr =
     \<lparr>config_env = env, config_version = version,
      config_logging_tracer = Some tr, tracer = test_tracer None\<rparr>"

text \<open>
  \<^verbatim>\<open>logger.info("Hello!")\<close> as the tests run it: the call of what \<^verbatim>\<open>Logger.makeRecord\<close>
  holds after the lifecycle calls \<open>cs\<close>, under the configuration \<open>dd\<close>, with the tag keys
  \<^verbatim>\<open>"version"\<close> and \<^verbatim>\<open>"env"\<close>.
\<close>

definition test_log :: "nat ddtrace \<Rightarrow> lifecycle_call list \<Rightarrow> (nat, addr) call_result" where
  "test_log dd cs =
     call_makeRecord ''version'' ''env'' dd test_makeRecord
       (Logger_makeRecord (run_calls cs logging_imported)) () ''Hello!'' () world0"

text \<open>
  The state the stand-in construction leaves, and the spans and configurations of the
  scenarios: no span under \<^verbatim>\<open>env="prod"\<close>, \<^verbatim>\<open>version="23.45.6"\<close> (\<^verbatim>\<open>test_log_no_trace\<close>);
  a span tagged \<^verbatim>\<open>env="prod-staging"\<close> under \<^verbatim>\<open>env="prod"\<close>
  (\<^verbatim>\<open>test_log_span_global_and_env\<close>); a span tagged with the service-version tag alone
  and no configuration (\<^verbatim>\<open>test_log_span_service_version\<close>), and one tagged with the
  service-version tag and then a different primary version tag; a span with span id 0; a
  failing tracer; a configuration with a version only; a span with no tags; a span with
  empty tags.
\<close>

definition world1 :: "nat world" where
  "world1 = snd (test_makeRecord () ''Hello!'' () world0)"

definition span_env_tag :: span where
  "span_env_tag = test_span 111 222 [(''env'', ''prod-staging'')]"

definition span_service_version :: span where
  "span_service_version =
     set_tag_calls ''version'' ''service.version'' (test_span 111 222 [])
       [(''service.version'', ''1.2.3'')]"

definition span_service_version_then_version :: span where
  "span_service_version_then_version =
     set_tag_calls ''version'' ''service.version'' (test_span 111 222 [])
       [(''service.version'', ''1.2.3''), (''version'', ''2.0.0'')]"

definition span_partial_ids :: span where
  "span_partial_ids = test_span 111 0 []"

definition span_no_tags :: span where
  "span_no_tags = test_span 111 222 []"

definition span_empty_tags :: span where
  "span_empty_tags = test_span 111 222 [(''env'', []), (''version'', [])]"

definition dd_no_trace :: "nat ddtrace" where
  "dd_no_trace = test_ddtrace (Some ''prod'') (Some ''23.45.6'') (test_tracer None)"

definition dd_env_tag :: "nat ddtrace" where
  "dd_env_tag = test_ddtrace (Some ''prod'') None (test_tracer (Some span_env_tag))"

definition dd_service_version :: "nat ddtrace" where
  "dd_service_version = test_ddtrace None None (test_tracer (Some span_service_version))"

definition dd_service_version_then_version :: "nat ddtrace" where
  "dd_service_version_then_version =
     test_ddtrace None (Some ''23.45.6'') (test_tracer (Some span_service_version_then_version))"

definition dd_partial_ids :: "nat ddtrace" where
  "dd_partial_ids = test_ddtrace None None (test_tracer (Some span_partial_ids))"

definition dd_raising :: "nat ddtrace" where
  "dd_raising = test_ddtrace None None raising_tracer"

definition dd_version_only :: "nat ddtrace" where
  "dd_version_only = test_ddtrace None (Some ''23.45.6'') (test_tracer None)"

definition dd_no_tags :: "nat ddtrace" where
  "dd_no_tags = test_ddtrace None None (test_tracer (Some span_no_tags))"

definition dd_empty_tags :: "nat ddtrace" where
  "dd_empty_tags = test_ddtrace (Some ''prod'') (Some ''23.45.6'') (test_tracer (Some span_empty_tags))"

lemmas scenario_defs =
  world1_def span_env_tag_def span_service_version_def span_service_version_then_version_def
  span_partial_ids_def span_no_tags_def span_empty_tags_def dd_no_trace_def dd_env_tag_def
  dd_service_version_def dd_service_version_then_version_def dd_partial_ids_def dd_raising_def
  dd_version_only_def dd_no_tags_def dd_empty_tags_def
  world0_def test_makeRecord_def test_span_def test_tracer_def raising_tracer_def
  test_ddtrace_def test_log_def logging_imported_def patch_def unpatch_def getattr_datadog_patch_def
  wrap_function_wrapper_def

section \<open>The hook's effect on the store\<close>

lemma heap_setattr:
  "heap (setattr w a key v) b k =
     (if b = a \<and> k = key then Some v else heap w b k)"
  by (simp add: setattr_def)

lemma ctx_setattr: "ctx (setattr w a key v) = ctx w"
  by (simp add: setattr_def)

lemma heap_inject_or_default:
  "heap (inject_or_default w a key v d) b k =
     (if b = a \<and> k = key then Some (if truthy v then v else d) else heap w b k)"
  by (simp add: inject_or_default_def heap_setattr)

lemma ctx_inject_or_default: "ctx (inject_or_default w a key v d) = ctx w"
  by (simp add: inject_or_default_def ctx_setattr)

lemma w_makeRecord_raise_func:
  "func args kwargs w0 = (Inl e, w1) \<Longrightarrow>
     w_makeRecord VK EK dd func inst args kwargs w0 = (Inl e, w1)"
  by (simp add: w_makeRecord_def)

lemma w_makeRecord_raise_lookup:
  "func args kwargs w0 = (Inr r, w1) \<Longrightarrow> current_span (hook_tracer dd) w1 = Inl e \<Longrightarrow>
     w_makeRecord VK EK dd func inst args kwargs w0 = (Inl e, w1)"
  by (simp add: w_makeRecord_def)

lemma fst_w_makeRecord:
  "func args kwargs w0 = (Inr r, w1) \<Longrightarrow> current_span (hook_tracer dd) w1 = Inr spo \<Longrightarrow>
     fst (w_makeRecord VK EK dd func inst args kwargs w0) = Inr r"
  by (simp add: w_makeRecord_def Let_def split: option.splits)

lemma ctx_w_makeRecord:
  "ctx (snd (w_makeRecord VK EK dd func inst args kwargs w0)) = ctx (snd (func args kwargs w0))"
proof (cases "func args kwargs w0")
  case (Pair res w1)
  show ?thesis
  proof (cases res)
    case (Inl e)
    with Pair show ?thesis by (simp add: w_makeRecord_def)
  next
    case (Inr r)
    show ?thesis
    proof (cases "current_span (hook_tracer dd) w1")
      case (Inl e)
      with Pair Inr show ?thesis by (simp add: w_makeRecord_def)
    next
      case (Inr spo)
      with Pair \<open>res = Inr r\<close> show ?thesis
        by (cases spo) (simp_all add: w_makeRecord_def Let_def ctx_inject_or_default ctx_setattr)
    qed
  qed
qed

lemma heap_w_makeRecord_other_obj:
  assumes "b \<noteq> r" and f: "func args kwargs w0 = (Inr r, w1)"
  shows "heap (snd (w_makeRecord VK EK dd func inst args kwargs w0)) b k = heap w1 b k"
proof (cases "current_span (hook_tracer dd) w1")
  case (Inl e)
  with f show ?thesis by (simp add: w_makeRecord_def)
next
  case (Inr spo)
  with f assms(1) show ?thesis
    by (cases spo) (simp_all add: w_makeRecord_def Let_def heap_inject_or_default heap_setattr)
qed

lemma heap_w_makeRecord_other_attr:
  assumes "k \<noteq> RECORD_ATTR_ENV" "k \<noteq> RECORD_ATTR_VERSION"
    "k \<noteq> RECORD_ATTR_TRACE_ID" "k \<noteq> RECORD_ATTR_SPAN_ID"
    and f: "func args kwargs w0 = (Inr r, w1)"
  shows "heap (snd (w_makeRecord VK EK dd func inst args kwargs w0)) b k = heap w1 b k"
proof (cases "current_span (hook_tracer dd) w1")
  case (Inl e)
  with f show ?thesis by (simp add: w_makeRecord_def)
next
  case (Inr spo)
  with f assms(1-4) show ?thesis
    by (cases spo) (simp_all add: w_makeRecord_def Let_def heap_inject_or_default heap_setattr)
qed

lemma heap_w_makeRecord_version:
  "func args kwargs w0 = (Inr r, w1) \<Longrightarrow> current_span (hook_tracer dd) w1 = Inr spo \<Longrightarrow>
     heap (snd (w_makeRecord VK EK dd func inst args kwargs w0)) r RECORD_ATTR_VERSION =
       Some (PyStr (case spo of
                Some sp \<Rightarrow> (case meta sp VK of Some v \<Rightarrow> v | None \<Rightarrow> (case config_version dd of Some c \<Rightarrow> c | None \<Rightarrow> []))
              | None \<Rightarrow> (case config_version dd of Some c \<Rightarrow> c | None \<Rightarrow> [])))"
  by (simp add: w_makeRecord_def Let_def heap_inject_or_default heap_setattr get_tag_def record_attr_defs split: option.split)

lemma heap_w_makeRecord_env:
  "func args kwargs w0 = (Inr r, w1) \<Longrightarrow> current_span (hook_tracer dd) w1 = Inr spo \<Longrightarrow>
     heap (snd (w_makeRecord VK EK dd func inst args kwargs w0)) r RECORD_ATTR_ENV =
       Some (PyStr (case spo of
                Some sp \<Rightarrow> (case meta sp EK of Some v \<Rightarrow> v | None \<Rightarrow> (case config_env dd of Some c \<Rightarrow> c | None \<Rightarrow> []))
              | None \<Rightarrow> (case config_env dd of Some c \<Rightarrow> c | None \<Rightarrow> [])))"
  by (simp add: w_makeRecord_def Let_def heap_inject_or_default heap_setattr get_tag_def record_attr_defs split: option.split)

lemma heap_w_makeRecord_trace_id:
  "func args kwargs w0 = (Inr r, w1) \<Longrightarrow> current_span (hook_tracer dd) w1 = Inr spo \<Longrightarrow>
     heap (snd (w_makeRecord VK EK dd func inst args kwargs w0)) r RECORD_ATTR_TRACE_ID =
       Some (PyInt (case spo of
                      Some sp \<Rightarrow> if trace_id sp \<noteq> 0 \<and> span_id sp \<noteq> 0 then trace_id sp else 0
                    | None \<Rightarrow> 0))"
  by (simp add: w_makeRecord_def Let_def heap_inject_or_default heap_setattr record_attr_defs
           split: option.split)

lemma heap_w_makeRecord_span_id:
  "func args kwargs w0 = (Inr r, w1) \<Longrightarrow> current_span (hook_tracer dd) w1 = Inr spo \<Longrightarrow>
     heap (snd (w_makeRecord VK EK dd func inst args kwargs w0)) r RECORD_ATTR_SPAN_ID =
       Some (PyInt (case spo of
                      Some sp \<Rightarrow> if trace_id sp \<noteq> 0 \<and> span_id sp \<noteq> 0 then span_id sp else 0
                    | None \<Rightarrow> 0))"
  by (simp add: w_makeRecord_def Let_def heap_inject_or_default heap_setattr record_attr_defs
           split: option.split)

lemma run_calls_inv:
  "Logger_makeRecord m = (if getattr_datadog_patch m then FunctionWrapper Original else Original) \<Longrightarrow>
   Logger_makeRecord (run_calls cs m) =
     (if getattr_datadog_patch (run_calls cs m) then FunctionWrapper Original else Original)"
proof (induction cs m rule: run_calls.induct)
  case (1 m)
  then show ?case by simp
next
  case (2 cs m)
  show ?case
    unfolding run_calls.simps
    by (rule "2.IH") (use "2.prems" in \<open>simp add: patch_def getattr_datadog_patch_def wrap_function_wrapper_def\<close>)
next
  case (3 cs m)
  show ?case
    unfolding run_calls.simps
    by (rule "3.IH") (use "3.prems" in \<open>simp add: unpatch_def getattr_datadog_patch_def\<close>)
qed

lemma run_calls_imported:
  "Logger_makeRecord (run_calls cs logging_imported) =
     (if getattr_datadog_patch (run_calls cs logging_imported) then FunctionWrapper Original else Original)"
  by (rule run_calls_inv) (simp add: logging_imported_def getattr_datadog_patch_def)



lemma call_active:
  "getattr_datadog_patch (run_calls cs logging_imported) \<Longrightarrow>
     call_makeRecord VK EK dd orig (Logger_makeRecord (run_calls cs logging_imported)) inst =
       w_makeRecord VK EK dd (orig inst) inst"
  by (simp add: run_calls_imported)

lemma call_inactive:
  "\<not> getattr_datadog_patch (run_calls cs logging_imported) \<Longrightarrow>
     call_makeRecord VK EK dd orig (Logger_makeRecord (run_calls cs logging_imported)) = orig"
  by (simp add: run_calls_imported)

section \<open>The claims\<close>

text \<open>
  While the integration is active, creating a log record is a call of the hook around
  the framework's construction (\<open>call_active\<close>), so the claims about records created
  while active are statements about \<open>w_makeRecord\<close>. A record is created when the wrapped
  construction returns it (\<open>made\<close>: it returns the record \<open>r\<close> and leaves the state \<open>w1\<close>)
  and the tracer answers the lookup (\<open>looked\<close>).
\<close>

text \<open>
  C1. On every log record created while active, the hook sets all four fields
  \<^verbatim>\<open>dd.env\<close>, \<^verbatim>\<open>dd.version\<close>, \<^verbatim>\<open>dd.trace_id\<close>, \<^verbatim>\<open>dd.span_id\<close>, whether or not there
  is a current span. With no current span, \<^verbatim>\<open>dd.env\<close> and \<^verbatim>\<open>dd.version\<close> are
  \<^verbatim>\<open>config.env\<close> and \<^verbatim>\<open>config.version\<close>, the empty string where those are \<^verbatim>\<open>None\<close>,
  and both identifiers are 0.
\<close>

theorem correlation_fields_always_set:
  fixes VERSION_KEY ENV_KEY dd func inst args kwargs w0 res
  defines "res \<equiv> w_makeRecord VERSION_KEY ENV_KEY dd func inst args kwargs w0"
  assumes made: "func args kwargs w0 = (Inr r, w1)"
    and looked: "current_span (hook_tracer dd) w1 = Inr spo"
  shows "fst res = Inr r \<and>
         heap (snd res) r RECORD_ATTR_ENV \<noteq> None \<and>
         heap (snd res) r RECORD_ATTR_VERSION \<noteq> None \<and>
         heap (snd res) r RECORD_ATTR_TRACE_ID \<noteq> None \<and>
         heap (snd res) r RECORD_ATTR_SPAN_ID \<noteq> None \<and>
         (spo = None \<longrightarrow>
            heap (snd res) r RECORD_ATTR_ENV =
              Some (PyStr (case config_env dd of Some s \<Rightarrow> s | None \<Rightarrow> [])) \<and>
            heap (snd res) r RECORD_ATTR_VERSION =
              Some (PyStr (case config_version dd of Some s \<Rightarrow> s | None \<Rightarrow> [])) \<and>
            heap (snd res) r RECORD_ATTR_TRACE_ID = Some (PyInt 0) \<and>
            heap (snd res) r RECORD_ATTR_SPAN_ID = Some (PyInt 0))"
proof -
  note facts =
    fst_w_makeRecord [where func = func, OF made looked]
    heap_w_makeRecord_env [where func = func, OF made looked]
    heap_w_makeRecord_version [where func = func, OF made looked]
    heap_w_makeRecord_trace_id [where func = func, OF made looked]
    heap_w_makeRecord_span_id [where func = func, OF made looked]
  show ?thesis
    unfolding res_def by (simp add: facts)
qed

text \<open>
  The scenario of \<^verbatim>\<open>test_log_no_trace\<close>: no span, \<^verbatim>\<open>env="prod"\<close>,
  \<^verbatim>\<open>version="23.45.6"\<close>.
\<close>

theorem correlation_fields_always_set_witness:
  "test_makeRecord () ''Hello!'' () world0 = (Inr 0, world1) \<and>
   current_span (hook_tracer dd_no_trace) world1 = Inr None \<and>
   fst (test_log dd_no_trace [Patch]) = Inr 0 \<and>
   heap (snd (test_log dd_no_trace [Patch])) 0 =
     [''msg'' \<mapsto> PyStr ''Hello!'', ''dd.version'' \<mapsto> PyStr ''23.45.6'',
      ''dd.env'' \<mapsto> PyStr ''prod'', ''dd.trace_id'' \<mapsto> PyInt 0, ''dd.span_id'' \<mapsto> PyInt 0]"
  using correlation_fields_always_set [where func = "test_makeRecord ()"
      and inst = "()" and args = "''Hello!''" and kwargs = "()" and ?w0.0 = world0
      and r = 0 and ?w1.0 = world1
      and dd = dd_no_trace
      and VERSION_KEY = "''version''" and ENV_KEY = "''env''"
      and spo = None]
  by (simp add: scenario_defs record_attr_defs w_makeRecord_def inject_or_default_def setattr_def
        Let_def get_tag_def)

text \<open>
  C2. On every record created while active, the environment field and the version field
  are each what the specification's chain gives for that field alone: the span's tag
  value when there is a current span whose tag mapping contains the field's key (whatever
  the global configuration holds), else the global configuration's value, else the empty
  string.
\<close>

theorem env_version_fallback_chain:
  fixes VERSION_KEY ENV_KEY dd func inst args kwargs w0 res
  defines "res \<equiv> w_makeRecord VERSION_KEY ENV_KEY dd func inst args kwargs w0"
  assumes made: "func args kwargs w0 = (Inr r, w1)"
    and looked: "current_span (hook_tracer dd) w1 = Inr spo"
  shows "heap (snd res) r RECORD_ATTR_ENV =
           Some (PyStr (fallback_chain (span_tag spo ENV_KEY) (config_env dd))) \<and>
         heap (snd res) r RECORD_ATTR_VERSION =
           Some (PyStr (fallback_chain (span_tag spo VERSION_KEY) (config_version dd)))"
proof -
  note facts =
    heap_w_makeRecord_env [where func = func, OF made looked]
    heap_w_makeRecord_version [where func = func, OF made looked]
  show ?thesis
    unfolding res_def by (simp add: facts fallback_chain_def span_tag_def split: option.split)
qed

text \<open>
  The scenario of \<^verbatim>\<open>test_log_span_global_and_env\<close>: the span is tagged
  \<^verbatim>\<open>env="prod-staging"\<close>, the configuration has \<^verbatim>\<open>env="prod"\<close> and no version.
\<close>

theorem env_version_fallback_chain_witness:
  "test_makeRecord () ''Hello!'' () world0 = (Inr 0, world1) \<and>
   current_span (hook_tracer dd_env_tag) world1 = Inr (Some span_env_tag) \<and>
   heap (snd (test_log dd_env_tag [Patch])) 0 RECORD_ATTR_ENV = Some (PyStr ''prod-staging'') \<and>
   heap (snd (test_log dd_env_tag [Patch])) 0 RECORD_ATTR_VERSION = Some (PyStr [])"
  using env_version_fallback_chain [where func = "test_makeRecord ()"
      and inst = "()" and args = "''Hello!''" and kwargs = "()" and ?w0.0 = world0
      and r = 0 and ?w1.0 = world1
      and dd = dd_env_tag
      and VERSION_KEY = "''version''" and ENV_KEY = "''env''"
      and spo = "Some span_env_tag"]
  by (simp add: scenario_defs record_attr_defs fallback_chain_def span_tag_def)



text \<open>
  C4. On every record created while active, the pair of identifier fields is the
  span's pair (trace id, span id) when there is a current span and both are non-zero;
  with no span, or with either identifier zero, both fields are 0. There is no mixed
  pair.
\<close>

theorem identifiers_all_or_nothing:
  fixes VERSION_KEY ENV_KEY dd func inst args kwargs w0 res
  defines "res \<equiv> w_makeRecord VERSION_KEY ENV_KEY dd func inst args kwargs w0"
  assumes made: "func args kwargs w0 = (Inr r, w1)"
    and looked: "current_span (hook_tracer dd) w1 = Inr spo"
  shows "(heap (snd res) r RECORD_ATTR_TRACE_ID, heap (snd res) r RECORD_ATTR_SPAN_ID) =
           (case spo of
              Some sp \<Rightarrow>
                if trace_id sp \<noteq> 0 \<and> span_id sp \<noteq> 0
                then (Some (PyInt (trace_id sp)), Some (PyInt (span_id sp)))
                else (Some (PyInt 0), Some (PyInt 0))
            | None \<Rightarrow> (Some (PyInt 0), Some (PyInt 0)))"
proof -
  note facts =
    heap_w_makeRecord_trace_id [where func = func, OF made looked]
    heap_w_makeRecord_span_id [where func = func, OF made looked]
  show ?thesis
    unfolding res_def by (simp add: facts split: option.split)
qed

text \<open>A span with trace id 111 and span id 0: both fields are 0.\<close>

theorem identifiers_all_or_nothing_witness:
  "test_makeRecord () ''Hello!'' () world0 = (Inr 0, world1) \<and>
   current_span (hook_tracer dd_partial_ids) world1 = Inr (Some span_partial_ids) \<and>
   (heap (snd (test_log dd_partial_ids [Patch])) 0 RECORD_ATTR_TRACE_ID,
    heap (snd (test_log dd_partial_ids [Patch])) 0 RECORD_ATTR_SPAN_ID) =
     (Some (PyInt 0), Some (PyInt 0))"
  using identifiers_all_or_nothing [where func = "test_makeRecord ()"
      and inst = "()" and args = "''Hello!''" and kwargs = "()" and ?w0.0 = world0
      and r = 0 and ?w1.0 = world1
      and dd = dd_partial_ids
      and VERSION_KEY = "''version''" and ENV_KEY = "''env''"
      and spo = "Some span_partial_ids"]
  by (simp add: scenario_defs record_attr_defs)

text \<open>
  C5. Whatever false value \<^verbatim>\<open>_inject_or_default\<close> is given for a field (\<^verbatim>\<open>None\<close>, the
  empty string, zero, \<^verbatim>\<open>False\<close>), with the default left at \<^verbatim>\<open>RECORD_ATTR_VALUE_EMPTY\<close>
  as the hook leaves it for \<^verbatim>\<open>dd.env\<close> and \<^verbatim>\<open>dd.version\<close>, its effect is that of writing
  the empty string: the attribute on the record is exactly the empty string, the same
  for every false value.
\<close>

theorem inject_or_default_falsy:
  "\<not> truthy v \<Longrightarrow>
     inject_or_default w r key v RECORD_ATTR_VALUE_EMPTY = setattr w r key (PyStr []) \<and>
     heap (inject_or_default w r key v RECORD_ATTR_VALUE_EMPTY) r key = Some (PyStr [])"
  by (simp add: inject_or_default_def heap_setattr RECORD_ATTR_VALUE_EMPTY_def)

text \<open>The values \<^verbatim>\<open>None\<close> and \<^verbatim>\<open>""\<close> for \<^verbatim>\<open>dd.version\<close>.\<close>

theorem inject_or_default_falsy_witness:
  "\<not> truthy PyNone \<and> \<not> truthy (PyStr []) \<and>
   inject_or_default world0 0 RECORD_ATTR_VERSION PyNone RECORD_ATTR_VALUE_EMPTY =
     inject_or_default world0 0 RECORD_ATTR_VERSION (PyStr []) RECORD_ATTR_VALUE_EMPTY \<and>
   heap (inject_or_default world0 0 RECORD_ATTR_VERSION PyNone RECORD_ATTR_VALUE_EMPTY)
     0 RECORD_ATTR_VERSION = Some (PyStr [])"
  using inject_or_default_falsy [where v = PyNone and w = world0 and r = 0
      and key = RECORD_ATTR_VERSION]
    inject_or_default_falsy [where v = "PyStr []" and w = world0 and r = 0
      and key = RECORD_ATTR_VERSION]
  by (simp add: heap_setattr)

text \<open>
  C6, as stated, fails on the hook where the lookup raises: \<^verbatim>\<open>tracer.current_span()\<close> is
  called with no handler around it, so the exception leaves the hook. With the
  integration active and a tracer whose lookup raises \<^verbatim>\<open>RuntimeError\<close>, the logging call
  that creates the record fails with that exception, and the record the original
  construction made has no field of the four.
\<close>

theorem raising_lookup_counterexample:
  "getattr_datadog_patch (run_calls [Patch] logging_imported) \<and>
   current_span (hook_tracer dd_raising) world1 = Inl (PyException ''RuntimeError'') \<and>
   fst (test_log dd_raising [Patch]) = Inl (PyException ''RuntimeError'') \<and>
   heap (snd (test_log dd_raising [Patch])) 0 = [''msg'' \<mapsto> PyStr ''Hello!'']"
  by (simp add: scenario_defs record_attr_defs w_makeRecord_def inject_or_default_def setattr_def
        Let_def get_tag_def)

text \<open>
  C6, amended. On every record creation while active, when the tracer's lookup returns
  \<^verbatim>\<open>None\<close> the hook treats it as "no active span" and completes with the default values
  (configuration or empty string, identifiers 0); when the lookup raises, the exception
  leaves the hook after the wrapped construction: record creation fails with it, in the
  state the wrapped construction left.
\<close>

theorem lookup_none_defaults_raise_propagates:
  fixes VERSION_KEY ENV_KEY dd func inst args kwargs w0 res
  defines "res \<equiv> w_makeRecord VERSION_KEY ENV_KEY dd func inst args kwargs w0"
  assumes made: "func args kwargs w0 = (Inr r, w1)"
  shows "(current_span (hook_tracer dd) w1 = Inr None \<longrightarrow>
            fst res = Inr r \<and>
            heap (snd res) r RECORD_ATTR_ENV =
              Some (PyStr (case config_env dd of Some s \<Rightarrow> s | None \<Rightarrow> [])) \<and>
            heap (snd res) r RECORD_ATTR_VERSION =
              Some (PyStr (case config_version dd of Some s \<Rightarrow> s | None \<Rightarrow> [])) \<and>
            heap (snd res) r RECORD_ATTR_TRACE_ID = Some (PyInt 0) \<and>
            heap (snd res) r RECORD_ATTR_SPAN_ID = Some (PyInt 0)) \<and>
         (\<forall>e. current_span (hook_tracer dd) w1 = Inl e \<longrightarrow> res = (Inl e, w1))"
proof -
  have none: "fst res = Inr r \<and>
      heap (snd res) r RECORD_ATTR_ENV =
        Some (PyStr (case config_env dd of Some s \<Rightarrow> s | None \<Rightarrow> [])) \<and>
      heap (snd res) r RECORD_ATTR_VERSION =
        Some (PyStr (case config_version dd of Some s \<Rightarrow> s | None \<Rightarrow> [])) \<and>
      heap (snd res) r RECORD_ATTR_TRACE_ID = Some (PyInt 0) \<and>
      heap (snd res) r RECORD_ATTR_SPAN_ID = Some (PyInt 0)"
    if looked: "current_span (hook_tracer dd) w1 = Inr None"
  proof -
    note facts =
      fst_w_makeRecord [where func = func, OF made looked]
      heap_w_makeRecord_env [where func = func, OF made looked]
      heap_w_makeRecord_version [where func = func, OF made looked]
      heap_w_makeRecord_trace_id [where func = func, OF made looked]
      heap_w_makeRecord_span_id [where func = func, OF made looked]
    show ?thesis unfolding res_def by (simp add: facts)
  qed
  have raised: "res = (Inl e, w1)" if "current_span (hook_tracer dd) w1 = Inl e" for e
    unfolding res_def by (rule w_makeRecord_raise_lookup [where func = func, OF made that])
  from none raised show ?thesis by blast
qed

text \<open>A tracer that returns \<^verbatim>\<open>None\<close>, with only a global version configured.\<close>

theorem lookup_none_defaults_raise_propagates_witness:
  "test_makeRecord () ''Hello!'' () world0 = (Inr 0, world1) \<and>
   current_span (hook_tracer dd_version_only) world1 = Inr None \<and>
   fst (test_log dd_version_only [Patch]) = Inr 0 \<and>
   heap (snd (test_log dd_version_only [Patch])) 0 RECORD_ATTR_ENV = Some (PyStr []) \<and>
   heap (snd (test_log dd_version_only [Patch])) 0 RECORD_ATTR_VERSION = Some (PyStr ''23.45.6'') \<and>
   heap (snd (test_log dd_version_only [Patch])) 0 RECORD_ATTR_TRACE_ID = Some (PyInt 0) \<and>
   heap (snd (test_log dd_version_only [Patch])) 0 RECORD_ATTR_SPAN_ID = Some (PyInt 0)"
  using lookup_none_defaults_raise_propagates [where func = "test_makeRecord ()"
      and inst = "()" and args = "''Hello!''" and kwargs = "()" and ?w0.0 = world0
      and r = 0 and ?w1.0 = world1
      and dd = dd_version_only
      and VERSION_KEY = "''version''" and ENV_KEY = "''env''"]
  by (simp add: scenario_defs record_attr_defs)

text \<open>
  C7. \<open>patch\<close> twice is \<open>patch\<close> once and \<open>unpatch\<close> twice is \<open>unpatch\<close> once, in every
  module state; \<open>patch\<close> on an active module and \<open>unpatch\<close> on an inactive one change
  nothing. In every state \<open>s\<close> that calls of \<open>patch\<close> and \<open>unpatch\<close> lead to from the imported
  module, \<open>patch\<close>, \<open>unpatch\<close>, \<open>patch\<close> leaves what one \<open>patch\<close> leaves; after \<open>patch\<close> the
  entry point is exactly one wrapper around the original (a call of it is one call of the
  hook around the original construction), after \<open>unpatch\<close> it is the original, and the
  number of wrappers is 1 when active and 0 when not: wrappers never stack.
\<close>

theorem patch_unpatch_idempotent:
  "patch (patch m) = patch m \<and>
   unpatch (unpatch m) = unpatch m \<and>
   (getattr_datadog_patch m \<longrightarrow> patch m = m) \<and>
   (\<not> getattr_datadog_patch m \<longrightarrow> unpatch m = m) \<and>
   patch (unpatch (patch (run_calls cs logging_imported))) =
     patch (run_calls cs logging_imported) \<and>
   Logger_makeRecord (patch (run_calls cs logging_imported)) = FunctionWrapper Original \<and>
   call_makeRecord VERSION_KEY ENV_KEY dd orig
       (Logger_makeRecord (patch (run_calls cs logging_imported))) inst =
     w_makeRecord VERSION_KEY ENV_KEY dd (orig inst) inst \<and>
   Logger_makeRecord (unpatch (run_calls cs logging_imported)) = Original \<and>
   wrapper_depth (Logger_makeRecord (run_calls cs logging_imported)) =
     (if getattr_datadog_patch (run_calls cs logging_imported) then 1 else 0)"
proof -
  have twice: "patch (patch m) = patch m" "unpatch (unpatch m) = unpatch m"
    by (simp_all add: patch_def unpatch_def getattr_datadog_patch_def)
  have noop: "getattr_datadog_patch m \<longrightarrow> patch m = m"
    "\<not> getattr_datadog_patch m \<longrightarrow> unpatch m = m"
    by (simp_all add: patch_def unpatch_def)
  define s where "s = run_calls cs logging_imported"
  have inv: "Logger_makeRecord s =
      (if getattr_datadog_patch s then FunctionWrapper Original else Original)"
    unfolding s_def by (rule run_calls_imported)
  have cycle: "patch (unpatch (patch s)) = patch s"
    using inv
    by (cases s)
      (simp add: patch_def unpatch_def getattr_datadog_patch_def wrap_function_wrapper_def
         split: option.splits)
  have one: "Logger_makeRecord (patch s) = FunctionWrapper Original"
    using inv by (simp add: patch_def wrap_function_wrapper_def)
  have hook: "call_makeRecord VERSION_KEY ENV_KEY dd orig (Logger_makeRecord (patch s)) inst =
      w_makeRecord VERSION_KEY ENV_KEY dd (orig inst) inst"
    by (simp add: one)
  have none: "Logger_makeRecord (unpatch s) = Original"
    using inv by (simp add: unpatch_def)
  have depth: "wrapper_depth (Logger_makeRecord s) = (if getattr_datadog_patch s then 1 else 0)"
    by (simp add: inv)
  from twice noop cycle one hook none depth show ?thesis
    unfolding s_def by blast
qed

text \<open>The imported module, and the cycle \<open>patch\<close>, \<open>unpatch\<close>, \<open>patch\<close> from it.\<close>

theorem patch_unpatch_idempotent_witness:
  "\<not> getattr_datadog_patch logging_imported \<and>
   unpatch logging_imported = logging_imported \<and>
   getattr_datadog_patch (patch logging_imported) \<and>
   patch (patch logging_imported) = patch logging_imported \<and>
   run_calls [Patch, Unpatch, Patch] logging_imported =
     \<lparr>datadog_patch = Some True, Logger_makeRecord = FunctionWrapper Original\<rparr> \<and>
   wrapper_depth (Logger_makeRecord (run_calls [Patch, Unpatch, Patch] logging_imported)) = 1"
  using patch_unpatch_idempotent [where m = logging_imported and cs = "[Patch, Unpatch, Patch]"]
    patch_unpatch_idempotent [where m = "patch logging_imported" and cs = "[]"]
  by (simp add: scenario_defs)

text \<open>
  C8. While the integration is inactive (never patched, or unpatched since), creating a
  record is the framework's original construction and nothing else: same result, same
  state, so none of the four fields is set by this integration.
\<close>

theorem inactive_records_untouched:
  "\<not> getattr_datadog_patch (run_calls cs logging_imported) \<Longrightarrow>
     call_makeRecord VERSION_KEY ENV_KEY dd orig
       (Logger_makeRecord (run_calls cs logging_imported)) inst args kwargs w0 =
     orig inst args kwargs w0"
  by (simp add: call_inactive)

text \<open>Before any \<open>patch\<close>, and after \<open>patch\<close> then \<open>unpatch\<close>.\<close>

theorem inactive_records_untouched_witness:
  "\<not> getattr_datadog_patch (run_calls [] logging_imported) \<and>
   \<not> getattr_datadog_patch (run_calls [Patch, Unpatch] logging_imported) \<and>
   test_log dd_no_trace [] = test_makeRecord () ''Hello!'' () world0 \<and>
   test_log dd_no_trace [Patch, Unpatch] = test_makeRecord () ''Hello!'' () world0 \<and>
   heap (snd (test_log dd_no_trace [Patch, Unpatch])) 0 = [''msg'' \<mapsto> PyStr ''Hello!'']"
  using inactive_records_untouched [where cs = "[]" and orig = test_makeRecord
      and inst = "()" and args = "''Hello!''" and kwargs = "()" and ?w0.0 = world0
      and dd = dd_no_trace
      and VERSION_KEY = "''version''" and ENV_KEY = "''env''"]
    inactive_records_untouched [where cs = "[Patch, Unpatch]" and orig = test_makeRecord
      and inst = "()" and args = "''Hello!''" and kwargs = "()" and ?w0.0 = world0
      and dd = dd_no_trace
      and VERSION_KEY = "''version''" and ENV_KEY = "''env''"]
  by (simp add: scenario_defs setattr_def)

text \<open>
  C9. Every call of the installed hook runs the wrapped construction once, from the
  state the call started in, and writes nothing but the four fields of the record it made:
  the state after the hook is the state \<open>w1\<close> the wrapped construction left, except for
  the attributes \<^verbatim>\<open>dd.env\<close>, \<^verbatim>\<open>dd.version\<close>, \<^verbatim>\<open>dd.trace_id\<close>, \<^verbatim>\<open>dd.span_id\<close> of that
  record (every other attribute of it, every other object and the rest of the state are
  as in \<open>w1\<close>). The lookup is made in \<open>w1\<close>, after the construction, and when it returns
  the hook returns the address of the very record the wrapped construction returned.
\<close>

theorem hook_frame:
  fixes VERSION_KEY ENV_KEY dd func inst args kwargs w0 res
  defines "res \<equiv> w_makeRecord VERSION_KEY ENV_KEY dd func inst args kwargs w0"
  assumes made: "func args kwargs w0 = (Inr r, w1)"
  shows "ctx (snd res) = ctx w1 \<and>
         (\<forall>b k. b \<noteq> r \<or> k \<notin> correlation_attrs \<longrightarrow> heap (snd res) b k = heap w1 b k) \<and>
         (\<forall>spo. current_span (hook_tracer dd) w1 = Inr spo \<longrightarrow> fst res = Inr r)"
proof -
  have state: "ctx (snd res) = ctx w1"
    unfolding res_def using made by (simp add: ctx_w_makeRecord)
  have frame: "heap (snd res) b k = heap w1 b k" if "b \<noteq> r \<or> k \<notin> correlation_attrs" for b k
  proof (cases "b = r")
    case False
    then show ?thesis
      unfolding res_def by (rule heap_w_makeRecord_other_obj [where func = func, OF _ made])
  next
    case True
    with that have "k \<noteq> RECORD_ATTR_ENV" "k \<noteq> RECORD_ATTR_VERSION"
      "k \<noteq> RECORD_ATTR_TRACE_ID" "k \<noteq> RECORD_ATTR_SPAN_ID"
      by (simp_all add: correlation_attrs_def)
    then show ?thesis
      unfolding res_def
      by (rule heap_w_makeRecord_other_attr [where func = func, OF _ _ _ _ made])
  qed
  have same: "fst res = Inr r" if "current_span (hook_tracer dd) w1 = Inr spo" for spo
    unfolding res_def by (rule fst_w_makeRecord [where func = func, OF made that])
  from state frame same show ?thesis by blast
qed

text \<open>
  A span with trace id 111 and span id 222, no tags, no configuration: the original
  construction has run once, the message is untouched, no other object has changed.
\<close>

theorem hook_frame_witness:
  "test_makeRecord () ''Hello!'' () world0 = (Inr 0, world1) \<and>
   current_span (hook_tracer dd_no_tags) world1 = Inr (Some span_no_tags) \<and>
   fst (test_log dd_no_tags [Patch]) = Inr 0 \<and>
   ctx (snd (test_log dd_no_tags [Patch])) = 1 \<and>
   heap (snd (test_log dd_no_tags [Patch])) 0 ''msg'' = Some (PyStr ''Hello!'') \<and>
   heap (snd (test_log dd_no_tags [Patch])) 1 = Map.empty \<and>
   heap (snd (test_log dd_no_tags [Patch])) 0 =
     [''msg'' \<mapsto> PyStr ''Hello!'', ''dd.version'' \<mapsto> PyStr [], ''dd.env'' \<mapsto> PyStr [],
      ''dd.trace_id'' \<mapsto> PyInt 111, ''dd.span_id'' \<mapsto> PyInt 222]"
  using hook_frame [where func = "test_makeRecord ()"
      and inst = "()" and args = "''Hello!''" and kwargs = "()" and ?w0.0 = world0
      and r = 0 and ?w1.0 = world1
      and dd = dd_no_tags
      and VERSION_KEY = "''version''" and ENV_KEY = "''env''"]
  by (simp add: scenario_defs record_attr_defs w_makeRecord_def inject_or_default_def setattr_def
        Let_def get_tag_def)

text \<open>
  C10. Presence of the key in the span's tag mapping decides, not the truth of the
  value: on a record created while active under a span whose tag mapping holds the
  environment (version) key with the empty string, the environment (version) field is
  the empty string, whatever the global configuration holds.
\<close>

theorem tag_presence_decides:
  fixes VERSION_KEY ENV_KEY dd func inst args kwargs w0 res
  defines "res \<equiv> w_makeRecord VERSION_KEY ENV_KEY dd func inst args kwargs w0"
  assumes made: "func args kwargs w0 = (Inr r, w1)"
    and looked: "current_span (hook_tracer dd) w1 = Inr (Some sp)"
  shows "(meta sp ENV_KEY = Some [] \<longrightarrow> heap (snd res) r RECORD_ATTR_ENV = Some (PyStr [])) \<and>
         (meta sp VERSION_KEY = Some [] \<longrightarrow>
            heap (snd res) r RECORD_ATTR_VERSION = Some (PyStr []))"
proof -
  note facts =
    heap_w_makeRecord_env [where func = func, OF made looked]
    heap_w_makeRecord_version [where func = func, OF made looked]
  show ?thesis
    unfolding res_def by (simp add: facts)
qed

text \<open>
  A span tagged \<^verbatim>\<open>env=""\<close> and \<^verbatim>\<open>version=""\<close> under \<^verbatim>\<open>env="prod"\<close>,
  \<^verbatim>\<open>version="23.45.6"\<close>.
\<close>

theorem tag_presence_decides_witness:
  "test_makeRecord () ''Hello!'' () world0 = (Inr 0, world1) \<and>
   current_span (hook_tracer dd_empty_tags) world1 = Inr (Some span_empty_tags) \<and>
   meta span_empty_tags ''env'' = Some [] \<and>
   meta span_empty_tags ''version'' = Some [] \<and>
   config_env dd_empty_tags = Some ''prod'' \<and>
   config_version dd_empty_tags = Some ''23.45.6'' \<and>
   heap (snd (test_log dd_empty_tags [Patch])) 0 RECORD_ATTR_ENV = Some (PyStr []) \<and>
   heap (snd (test_log dd_empty_tags [Patch])) 0 RECORD_ATTR_VERSION = Some (PyStr [])"
  using tag_presence_decides [where func = "test_makeRecord ()"
      and inst = "()" and args = "''Hello!''" and kwargs = "()" and ?w0.0 = world0
      and r = 0 and ?w1.0 = world1
      and dd = dd_empty_tags
      and VERSION_KEY = "''version''" and ENV_KEY = "''env''"
      and sp = span_empty_tags]
  by (simp add: scenario_defs record_attr_defs)

end
